theory Spec2Isabelle
  imports Complex_Main
begin

section \<open>The Waymo replay environment: per-step evaluation\<close>

text \<open>
  A shallow embedding of \<^verbatim>\<open>metadrive/envs/real_data_envs/waymo_env.py\<close>.
  Python floats are read as real numbers, Python ints as \<open>int\<close>, dictionaries as maps,
  and every exception the code can raise is a value of \<open>error\<close> on the left of a sum.
\<close>

subsection \<open>Errors and Python primitives\<close>

datatype error = KeyError | IndexError | ValueError | AssertionError | ZeroDivisionError

definition py_get :: "'a list \<Rightarrow> int \<Rightarrow> error + 'a" where
  \<comment> \<open>\<^verbatim>\<open>xs[i]\<close> on a list or a numpy array: a negative index counts from the end.\<close>
  "py_get xs i =
     (if 0 \<le> i \<and> i < int (length xs) then Inr (xs ! nat i)
      else if - int (length xs) \<le> i \<and> i < 0 then Inr (xs ! nat (i + int (length xs)))
      else Inl IndexError)"

definition py_lookup :: "('k \<rightharpoonup> 'v) \<Rightarrow> 'k \<Rightarrow> error + 'v" where
  \<comment> \<open>\<^verbatim>\<open>d[k]\<close> on a dictionary.\<close>
  "py_lookup d k = (case d k of None \<Rightarrow> Inl KeyError | Some v \<Rightarrow> Inr v)"

definition py_truediv :: "real \<Rightarrow> real \<Rightarrow> error + real" where
  \<comment> \<open>\<^verbatim>\<open>a / b\<close> on floats.\<close>
  "py_truediv a b = (if b = 0 then Inl ZeroDivisionError else Inr (a / b))"

definition np_where :: "bool list \<Rightarrow> nat list" where
  \<comment> \<open>\<^verbatim>\<open>np.where(mask == True)[0]\<close>: the indices of the true entries, ascending.\<close>
  "np_where vmask = filter (\<lambda>i. vmask ! i) [0..<length vmask]"

definition np_max :: "nat list \<Rightarrow> error + nat" where
  \<comment> \<open>\<^verbatim>\<open>np.max\<close>: a zero-size array has no maximum and raises ValueError.\<close>
  "np_max xs = (case xs of [] \<Rightarrow> Inl ValueError | x # rest \<Rightarrow> Inr (fold max rest x))"

definition clip :: "real \<Rightarrow> real \<Rightarrow> real \<Rightarrow> real" where
  \<comment> \<open>Modelled from the spec: \<^verbatim>\<open>metadrive.utils.clip\<close> is imported by the source and not
      part of it; the spec writes \<^verbatim>\<open>clip(1 - 2*|lat_now|/6, 0, 1)\<close> for a value held
      between its two bounds.\<close>
  "clip a low high = min (max a low) high"

subsection \<open>Resolving the expert frame (lines 266 to 277 of the source)\<close>

function walk_back :: "bool list \<Rightarrow> int \<Rightarrow> error + int" where
  "walk_back vmask current_step =
     (case py_get vmask current_step of
        Inl e \<Rightarrow> Inl e
      | Inr v \<Rightarrow>
          if v then Inr current_step
          else if current_step - 1 = 0 then Inr (current_step - 1)
          else walk_back vmask (current_step - 1))"
  by pat_completeness auto
termination
proof (relation "measure (\<lambda>(vmask, current_step). nat (current_step + int (length vmask) + 1))")
  show "wf (measure (\<lambda>(vmask, current_step). nat (current_step + int (length vmask) + 1)))"
    by simp
next
  fix vmask :: "bool list" and current_step :: int and v :: bool
  assume "py_get vmask current_step = Inr v"
  then have "- int (length vmask) \<le> current_step"
    by (auto simp: py_get_def split: if_splits)
  then show "((vmask, current_step - 1), (vmask, current_step))
      \<in> measure (\<lambda>(vmask, current_step). nat (current_step + int (length vmask) + 1))"
    by simp
qed

definition expert_index :: "bool list \<Rightarrow> nat \<Rightarrow> error + (nat \<times> int)" where
  \<comment> \<open>Returns \<^verbatim>\<open>largest_valid_index\<close> and the resolved \<^verbatim>\<open>current_step\<close>.\<close>
  "expert_index vmask episode_step =
     (case np_max (np_where vmask) of
        Inl e \<Rightarrow> Inl e
      | Inr largest_valid_index \<Rightarrow>
          (case walk_back vmask
                  (if int episode_step > int largest_valid_index then int largest_valid_index
                   else int episode_step) of
             Inl e \<Rightarrow> Inl e
           | Inr current_step \<Rightarrow> Inr (largest_valid_index, current_step)))"

fun spec_walk :: "bool list \<Rightarrow> nat \<Rightarrow> nat" where
  \<comment> \<open>The walk as the specification words it: step back by one until the frame is valid
      or index 0 is reached, and use index 0 whatever its validity.\<close>
  "spec_walk vmask 0 = 0"
| "spec_walk vmask (Suc i) = (if vmask ! Suc i then Suc i else spec_walk vmask i)"

definition spec_expert_index :: "bool list \<Rightarrow> nat \<Rightarrow> nat" where
  \<comment> \<open>The specification's matcher: clamp to \<open>min(step_index, last_valid)\<close>, then walk.\<close>
  "spec_expert_index vmask step_index =
     spec_walk vmask (min step_index (Max (set (np_where vmask))))"

subsection \<open>Data model\<close>

type_synonym position = "real \<times> real"

record lane =
  lane_id :: nat  \<comment> \<open>the identity of the lane object, which \<^verbatim>\<open>in\<close> compares\<close>
  local_coordinates :: "position \<Rightarrow> real \<times> real"

record trajectory = lane +
  traj_length :: real  \<comment> \<open>\<^verbatim>\<open>reference_trajectory.length\<close>\<close>

record navigation =
  current_ref_lanes :: "lane list"
  reference_trajectory :: trajectory

record vehicle =
  name :: string
  position :: position
  last_position :: position
  lane :: lane
  navigation :: navigation
  crash_vehicle :: bool
  crash_object :: bool
  crash_building :: bool
  crash_sidewalk :: bool
  on_yellow_continuous_line :: bool
  on_white_continuous_line :: bool
  WIDTH :: real
  LENGTH :: real
  dynamics_mode :: "string option"  \<comment> \<open>\<^verbatim>\<open>_dynamics_mode\<close>, when the vehicle has it\<close>

record observation =
  lateral_dist :: real

record expert_state =
  valid :: "bool list"
  expert_position :: "(real \<times> real \<times> real) list"  \<comment> \<open>the \<^verbatim>\<open>"position"\<close> array\<close>

record scenario =
  sdc_id :: string
  tracks :: "string \<rightharpoonup> expert_state option"
    \<comment> \<open>a track is an empty dictionary (\<open>None\<close>) or holds its \<^verbatim>\<open>"state"\<close>\<close>

record config =
  start_scenario_index :: int
  num_scenario :: int
  sequential_seed :: bool
  success_reward :: real
  out_of_road_penalty :: real
  crash_vehicle_penalty :: real
  crash_object_penalty :: real
  driving_reward :: real
  use_lateral_reward :: bool
  crash_vehicle_cost :: real
  crash_object_cost :: real
  out_of_road_cost :: real
  out_of_route_done :: bool
  crash_vehicle_done :: bool
  relax_out_of_road_done :: bool
  coordinate_transform :: bool

definition WAYMO_ENV_CONFIG :: config where
  "WAYMO_ENV_CONFIG =
     \<lparr>start_scenario_index = 0, num_scenario = 3, sequential_seed = False,
      success_reward = 10, out_of_road_penalty = 10, crash_vehicle_penalty = 1,
      crash_object_penalty = 1, driving_reward = 1, use_lateral_reward = False,
      crash_vehicle_cost = 1, crash_object_cost = 1, out_of_road_cost = 1,
      out_of_route_done = False, crash_vehicle_done = False,
      relax_out_of_road_done = True, coordinate_transform = True\<rparr>"

record env =
  config :: config
  vehicles :: "string \<rightharpoonup> vehicle"
  observations :: "string \<rightharpoonup> observation"
  object_to_agent :: "string \<rightharpoonup> string"  \<comment> \<open>the agent manager's table\<close>
  global_seed :: "int option"  \<comment> \<open>\<^verbatim>\<open>engine.global_seed\<close>\<close>
  get_scenario :: "int option \<Rightarrow> scenario"  \<comment> \<open>the data manager\<close>
  current_sdc_route :: lane  \<comment> \<open>the map manager's route\<close>
  waymo_to_metadrive_vector :: "position \<Rightarrow> position"
  episode_step :: nat

record step_info =
  step_reward :: real
  track_length :: real
  current_distance :: real
  route_completion :: real
  carsize :: "real list"
  distance_error :: "real option"
  distance_error_final :: "real option"
  info_dynamics_mode :: "string option"

text \<open>
  Modelled from the spec: \<^verbatim>\<open>metadrive.constants.TerminationState\<close> is imported by the
  source and not part of it; the spec's DoneInfo names the reasons arrive_dest,
  out_of_road, crash_vehicle, crash_object, crash_building and crash.
\<close>

definition SUCCESS :: string where "SUCCESS = ''arrive_dest''"
definition OUT_OF_ROAD :: string where "OUT_OF_ROAD = ''out_of_road''"
definition CRASH_VEHICLE :: string where "CRASH_VEHICLE = ''crash_vehicle''"
definition CRASH_OBJECT :: string where "CRASH_OBJECT = ''crash_object''"
definition CRASH_BUILDING :: string where "CRASH_BUILDING = ''crash_building''"
definition CRASH :: string where "CRASH = ''crash''"

subsection \<open>Arrival and out-of-road predicates\<close>

definition is_arrive_destination :: "vehicle \<Rightarrow> error + bool" where
  \<comment> \<open>\<^verbatim>\<open>_is_arrive_destination\<close>, lines 301 to 312.\<close>
  "is_arrive_destination vehicle =
     (let long = fst (local_coordinates (reference_trajectory (navigation vehicle))
                        (position vehicle));
          total_length = traj_length (reference_trajectory (navigation vehicle));
          current_distance = long
      in case py_truediv current_distance total_length of
           Inl e \<Rightarrow> Inl e
         | Inr rc \<Rightarrow> if rc > 0.95 then Inr True else Inr False)"

definition is_out_of_road :: "env \<Rightarrow> vehicle \<Rightarrow> error + bool" where
  \<comment> \<open>\<^verbatim>\<open>_is_out_of_road\<close>, lines 314 to 329.\<close>
  "is_out_of_road self vehicle =
     (if relax_out_of_road_done (config self) then
        (case py_lookup (object_to_agent self) (name vehicle) of
           Inl e \<Rightarrow> Inl e
         | Inr agent_name \<Rightarrow>
             (case py_lookup (observations self) agent_name of
                Inl e \<Rightarrow> Inl e
              | Inr ob \<Rightarrow>
                  (let lat = \<bar>lateral_dist ob\<bar>;
                       done = lat > 10
                   in Inr (done \<or> on_yellow_continuous_line vehicle \<or> crash_sidewalk vehicle))))
      else
        (let done = (crash_sidewalk vehicle \<or> on_yellow_continuous_line vehicle
                       \<or> on_white_continuous_line vehicle)
         in if out_of_route_done (config self) then
              (case py_lookup (object_to_agent self) (name vehicle) of
                 Inl e \<Rightarrow> Inl e
               | Inr agent_name \<Rightarrow>
                   if done then Inr done
                   else (case py_lookup (observations self) agent_name of
                           Inl e \<Rightarrow> Inl e
                         | Inr ob \<Rightarrow> Inr (\<bar>lateral_dist ob\<bar> > 10)))
            else Inr done))"

subsection \<open>Termination (lines 150 to 193)\<close>

definition done_route_check :: "real \<Rightarrow> bool" where
  \<comment> \<open>The inline route-completion test of line 166, \<^verbatim>\<open>route_completion > 1.0\<close>.\<close>
  "done_route_check rc = (rc > 1.0)"

definition init_done_info :: "string \<rightharpoonup> bool" where
  "init_done_info =
     [''crash_vehicle'' \<mapsto> False, ''crash_object'' \<mapsto> False, ''crash_building'' \<mapsto> False,
      ''out_of_road'' \<mapsto> False, ''arrive_dest'' \<mapsto> False]"

definition crash_aggregate :: "(string \<rightharpoonup> bool) \<Rightarrow> error + bool" where
  \<comment> \<open>Lines 189 to 192: the three reads, with the short circuit of \<^verbatim>\<open>or\<close>.\<close>
  "crash_aggregate done_info =
     (case py_lookup done_info CRASH_VEHICLE of
        Inl e \<Rightarrow> Inl e
      | Inr a \<Rightarrow>
          if a then Inr a
          else (case py_lookup done_info CRASH_OBJECT of
                  Inl e \<Rightarrow> Inl e
                | Inr b \<Rightarrow>
                    if b then Inr b else py_lookup done_info CRASH_BUILDING))"

definition done_function :: "env \<Rightarrow> string \<Rightarrow> error + (bool \<times> (string \<rightharpoonup> bool) \<times> env)" where
  "done_function self vehicle_id =
     (case py_lookup (vehicles self) vehicle_id of
        Inl e \<Rightarrow> Inl e
      | Inr vehicle \<Rightarrow>
          (let long = fst (local_coordinates (reference_trajectory (navigation vehicle))
                             (position vehicle));
               total_length = traj_length (reference_trajectory (navigation vehicle));
               current_distance = long
           in case py_truediv current_distance total_length of
                Inl e \<Rightarrow> Inl e
              | Inr rc \<Rightarrow>
                  (case is_arrive_destination vehicle of
                     Inl e \<Rightarrow> Inl e
                   | Inr arrive \<Rightarrow>
                       (let (done1, info1) =
                              (if arrive \<or> done_route_check rc
                               then (True, init_done_info(SUCCESS \<mapsto> True))
                               else (False, init_done_info))
                        in case is_out_of_road self vehicle of
                             Inl e \<Rightarrow> Inl e
                           | Inr out \<Rightarrow>
                               (let (done2, info2) =
                                      (if out \<or> rc < - 0.1
                                       then (True, info1(OUT_OF_ROAD \<mapsto> True))
                                       else (done1, info1));
                                    (done3, info3) =
                                      (if crash_vehicle vehicle \<and> crash_vehicle_done (config self)
                                       then (True, info2(CRASH_VEHICLE \<mapsto> True))
                                       else (done2, info2));
                                    (done4, info4) =
                                      (if crash_object vehicle
                                       then (True, info3(CRASH_OBJECT \<mapsto> True))
                                       else (done3, info3));
                                    (done5, info5) =
                                      (if crash_building vehicle
                                       then (True, info4(CRASH_BUILDING \<mapsto> True))
                                       else (done4, info4))
                                in case crash_aggregate info5 of
                                     Inl e \<Rightarrow> Inl e
                                   | Inr c \<Rightarrow> Inr (done5, info5(CRASH \<mapsto> c), self))))))"

subsection \<open>Cost (lines 195 to 205)\<close>

definition cost_function :: "env \<Rightarrow> string \<Rightarrow> error + (real \<times> (string \<rightharpoonup> real) \<times> env)" where
  "cost_function self vehicle_id =
     (case py_lookup (vehicles self) vehicle_id of
        Inl e \<Rightarrow> Inl e
      | Inr vehicle \<Rightarrow>
          (case is_out_of_road self vehicle of
             Inl e \<Rightarrow> Inl e
           | Inr out \<Rightarrow>
               (let step_info0 = [''cost'' \<mapsto> 0];
                    step_info1 =
                      (if out then step_info0(''cost'' \<mapsto> out_of_road_cost (config self))
                       else if crash_vehicle vehicle
                         then step_info0(''cost'' \<mapsto> crash_vehicle_cost (config self))
                       else if crash_object vehicle
                         then step_info0(''cost'' \<mapsto> crash_object_cost (config self))
                       else step_info0)
                in case py_lookup step_info1 ''cost'' of
                     Inl e \<Rightarrow> Inl e
                   | Inr c \<Rightarrow> Inr (c, step_info1, self))))"

subsection \<open>Reward (lines 207 to 299)\<close>

definition np_linalg_norm :: "position \<Rightarrow> real" where
  "np_linalg_norm v = sqrt ((fst v)\<^sup>2 + (snd v)\<^sup>2)"

definition vec_sub :: "position \<Rightarrow> position \<Rightarrow> position" where
  "vec_sub a b = (fst a - fst b, snd a - snd b)"

definition first_two :: "real \<times> real \<times> real \<Rightarrow> position" where
  \<comment> \<open>The slice \<^verbatim>\<open>[:2]\<close> of a logged position.\<close>
  "first_two p = (fst p, fst (snd p))"

definition terminal_override :: "env \<Rightarrow> vehicle \<Rightarrow> real \<Rightarrow> error + real" where
  \<comment> \<open>Lines 239 to 246: the \<^verbatim>\<open>if/elif\<close> chain that may replace the reward.\<close>
  "terminal_override self vehicle reward =
     (case is_arrive_destination vehicle of
        Inl e \<Rightarrow> Inl e
      | Inr arrive \<Rightarrow>
          if arrive then Inr (success_reward (config self))
          else (case is_out_of_road self vehicle of
                  Inl e \<Rightarrow> Inl e
                | Inr out \<Rightarrow>
                    if out then Inr (- out_of_road_penalty (config self))
                    else if crash_vehicle vehicle then Inr (- crash_vehicle_penalty (config self))
                    else if crash_object vehicle then Inr (- crash_object_penalty (config self))
                    else Inr reward))"

definition expert_diagnostics ::
  "env \<Rightarrow> string \<Rightarrow> vehicle \<Rightarrow> error + (real option \<times> real option)" where
  \<comment> \<open>Lines 255 to 292: \<^verbatim>\<open>distance_error\<close> and \<^verbatim>\<open>distance_error_final\<close>, when the
      track is there.\<close>
  "expert_diagnostics self vehicle_id vehicle =
     (let data = get_scenario self (global_seed self);
          agent_xy = position vehicle;
          native_vid = (if vehicle_id = ''sdc'' \<or> vehicle_id = ''default_agent''
                        then sdc_id data else vehicle_id)
      in case tracks data native_vid of
           None \<Rightarrow> Inr (None, None)
         | Some None \<Rightarrow> Inr (None, None)
         | Some (Some expert_state_list) \<Rightarrow>
             (case expert_index (valid expert_state_list) (episode_step self) of
                Inl e \<Rightarrow> Inl e
              | Inr (largest_valid_index, current_step) \<Rightarrow>
                  (case py_get (expert_position expert_state_list) current_step of
                     Inl e \<Rightarrow> Inl e
                   | Inr p \<Rightarrow>
                       (let expert_xy =
                              (if coordinate_transform (config self)
                               then waymo_to_metadrive_vector self (first_two p)
                               else first_two p);
                            dist = np_linalg_norm (vec_sub agent_xy expert_xy)
                        in case py_get (expert_position expert_state_list)
                                  (int largest_valid_index) of
                             Inl e \<Rightarrow> Inl e
                           | Inr last_state \<Rightarrow>
                               (let last_expert_xy =
                                      (if coordinate_transform (config self)
                                       then waymo_to_metadrive_vector self (first_two last_state)
                                       else first_two last_state);
                                    last_dist = np_linalg_norm (vec_sub agent_xy last_expert_xy)
                                in Inr (Some dist, Some last_dist))))))"

definition reward_lane :: "vehicle \<Rightarrow> error + lane" where
  \<comment> \<open>Lines 217 to 220: the lane the dense reward is measured on.\<close>
  "reward_lane vehicle =
     (if lane_id (lane vehicle) \<in> set (map lane_id (current_ref_lanes (navigation vehicle)))
      then Inr (lane vehicle)
      else py_get (current_ref_lanes (navigation vehicle)) 0)"

definition reward_function :: "env \<Rightarrow> string \<Rightarrow> error + (real \<times> step_info \<times> env)" where
  "reward_function self vehicle_id =
     (case py_lookup (vehicles self) vehicle_id of
        Inl e \<Rightarrow> Inl e
      | Inr vehicle \<Rightarrow>
          (case reward_lane vehicle of
             Inl e \<Rightarrow> Inl e
           | Inr current_lane \<Rightarrow>
               (let long_last = fst (local_coordinates current_lane (last_position vehicle));
                    long_now = fst (local_coordinates current_lane (position vehicle));
                    lateral_now = snd (local_coordinates current_lane (position vehicle));
                    new_lateral = snd (local_coordinates (current_sdc_route self)
                                         (position vehicle))
                in case py_lookup (observations self) vehicle_id of
                     Inl e \<Rightarrow> Inl e
                   | Inr ob \<Rightarrow>
                       (let self1 = self\<lparr>observations :=
                                     (observations self)
                                       (vehicle_id \<mapsto> ob\<lparr>lateral_dist := new_lateral\<rparr>)\<rparr>;
                            lateral_factor =
                              (if use_lateral_reward (config self1)
                               then clip (1 - 2 * \<bar>lateral_now\<bar> / 6) 0.0 1.0
                               else 1.0);
                            reward0 = 0 + driving_reward (config self1)
                                            * (long_now - long_last) * lateral_factor
                        in case terminal_override self1 vehicle reward0 of
                             Inl e \<Rightarrow> Inl e
                           | Inr reward \<Rightarrow>
                               (let tl = traj_length (reference_trajectory (navigation vehicle));
                                    cd = fst (local_coordinates
                                                (reference_trajectory (navigation vehicle))
                                                (position vehicle))
                                in case py_truediv cd tl of
                                     Inl e \<Rightarrow> Inl e
                                   | Inr rc \<Rightarrow>
                                       (case expert_diagnostics self1 vehicle_id vehicle of
                                          Inl e \<Rightarrow> Inl e
                                        | Inr (de, de_final) \<Rightarrow>
                                            Inr (reward,
                                                 \<lparr>step_reward = reward0, track_length = tl,
                                                  current_distance = cd, route_completion = rc,
                                                  carsize = [WIDTH vehicle, LENGTH vehicle],
                                                  distance_error = de,
                                                  distance_error_final = de_final,
                                                  info_dynamics_mode = dynamics_mode vehicle\<rparr>,
                                                 self1)))))))"

subsection \<open>Seed selection (lines 331 to 350)\<close>

definition randint :: "int \<Rightarrow> int \<Rightarrow> nat \<Rightarrow> error + int" where
  \<comment> \<open>Modelled from the spec: the random generator is imported by the source and not part
      of it; the spec says the draw is uniform from \<open>[window_start, window_start +
      window_size)\<close>. The third argument is the entropy the draw consumes; an empty
      range has nothing to draw.\<close>
  "randint low high r =
     (if high \<le> low then Inl ValueError else Inr (low + int r mod (high - low)))"

definition reset_global_seed :: "env \<Rightarrow> int option \<Rightarrow> nat \<Rightarrow> error + env" where
  "reset_global_seed self force_seed r =
     (case (case force_seed of
              Some f \<Rightarrow> Inr f
            | None \<Rightarrow>
                if sequential_seed (config self) then
                  (let current_seed =
                         (case global_seed self of
                            None \<Rightarrow> start_scenario_index (config self)
                          | Some g \<Rightarrow> g + 1)
                   in if current_seed \<ge> start_scenario_index (config self)
                                           + num_scenario (config self)
                      then Inr (start_scenario_index (config self))
                      else Inr current_seed)
                else randint (start_scenario_index (config self))
                       (start_scenario_index (config self) + num_scenario (config self)) r) of
        Inl e \<Rightarrow> Inl e
      | Inr current_seed \<Rightarrow>
          if start_scenario_index (config self) \<le> current_seed
             \<and> current_seed < start_scenario_index (config self) + num_scenario (config self)
          then Inr (self\<lparr>global_seed := Some current_seed\<rparr>)
          else Inl AssertionError)"

subsection \<open>The done information as one dictionary\<close>

definition flags_of :: "bool \<Rightarrow> bool \<Rightarrow> bool \<Rightarrow> bool \<Rightarrow> bool \<Rightarrow> (string \<rightharpoonup> bool)" where
  \<comment> \<open>The dictionary \<^verbatim>\<open>done_function\<close> returns, written by its five reasons.\<close>
  "flags_of a out cv co cb =
     [''crash_vehicle'' \<mapsto> cv, ''crash_object'' \<mapsto> co, ''crash_building'' \<mapsto> cb,
      ''out_of_road'' \<mapsto> out, ''arrive_dest'' \<mapsto> a, ''crash'' \<mapsto> (cv \<or> co \<or> cb)]"

subsection \<open>A small scenario to run the functions on\<close>

definition demo_lane :: lane where
  "demo_lane = \<lparr>lane_id = 0, local_coordinates = (\<lambda>p. p)\<rparr>"

definition demo_trajectory :: trajectory where
  "demo_trajectory = \<lparr>lane_id = 1, local_coordinates = (\<lambda>p. p), traj_length = 100\<rparr>"

definition demo_vehicle :: "position \<Rightarrow> vehicle" where
  \<comment> \<open>A car at \<open>p\<close> that was at the origin one step earlier, with no flag raised.\<close>
  "demo_vehicle p =
     \<lparr>name = ''car'', position = p, last_position = (0, 0), lane = demo_lane,
      navigation = \<lparr>current_ref_lanes = [demo_lane], reference_trajectory = demo_trajectory\<rparr>,
      crash_vehicle = False, crash_object = False, crash_building = False,
      crash_sidewalk = False, on_yellow_continuous_line = False,
      on_white_continuous_line = False, WIDTH = 2, LENGTH = 4, dynamics_mode = None\<rparr>"

definition demo_scenario :: "bool list \<Rightarrow> scenario" where
  \<comment> \<open>One logged track, whose frame \<open>i\<close> is at \<open>(i, 0, 0)\<close>.\<close>
  "demo_scenario vmask =
     \<lparr>sdc_id = ''ego'',
      tracks = [''ego'' \<mapsto> Some \<lparr>valid = vmask,
                  expert_position = map (\<lambda>i. (real i, 0, 0)) [0..<length vmask]\<rparr>]\<rparr>"

definition demo_env :: "config \<Rightarrow> vehicle \<Rightarrow> real \<Rightarrow> bool list \<Rightarrow> nat \<Rightarrow> env" where
  "demo_env cfg v lat vmask step =
     \<lparr>config = cfg, vehicles = [''default_agent'' \<mapsto> v],
      observations = [''default_agent'' \<mapsto> \<lparr>lateral_dist = lat\<rparr>],
      object_to_agent = [''car'' \<mapsto> ''default_agent''],
      global_seed = Some 0, get_scenario = (\<lambda>_. demo_scenario vmask),
      current_sdc_route = demo_lane,
      waymo_to_metadrive_vector = (\<lambda>p. (fst p, - snd p)),
      episode_step = step\<rparr>"

definition demo_seed_env :: "bool \<Rightarrow> int option \<Rightarrow> env" where
  "demo_seed_env seq g =
     (demo_env (WAYMO_ENV_CONFIG\<lparr>start_scenario_index := 5, num_scenario := 3,
                                 sequential_seed := seq\<rparr>)
        (demo_vehicle (0, 0)) 0 [True] 0)\<lparr>global_seed := g\<rparr>"

abbreviation vehicle_rc :: "vehicle \<Rightarrow> real" where
  "vehicle_rc vehicle \<equiv>
     fst (local_coordinates (reference_trajectory (navigation vehicle)) (position vehicle))
       / traj_length (reference_trajectory (navigation vehicle))"

section \<open>Properties\<close>

subsection \<open>Unfolding rules\<close>

lemmas TerminationState_defs =
  SUCCESS_def OUT_OF_ROAD_def CRASH_VEHICLE_def CRASH_OBJECT_def CRASH_BUILDING_def CRASH_def

lemmas demo_defs =
  demo_lane_def demo_trajectory_def demo_vehicle_def demo_scenario_def demo_env_def
  WAYMO_ENV_CONFIG_def

subsection \<open>The expert frame\<close>

declare walk_back.simps [simp del]

lemma np_max_np_where:
  assumes "np_where vmask \<noteq> []"
  shows "np_max (np_where vmask) = Inr (Max (set (np_where vmask)))"
proof (cases "np_where vmask")
  case Nil
  then show ?thesis using assms by simp
next
  case (Cons x rest)
  have "fold max rest x = Max (set (x # rest))"
    by (simp only: Max.set_eq_fold)
  then show ?thesis using Cons by (simp add: np_max_def)
qed

lemma walk_back_spec_walk:
  "n < length vmask \<Longrightarrow> 0 < n \<or> vmask ! 0 \<Longrightarrow>
   walk_back vmask (int n) = Inr (int (spec_walk vmask n))"
proof (induction n)
  case 0
  then show ?case by (subst walk_back.simps) (simp add: py_get_def)
next
  case (Suc n)
  have g: "py_get vmask (int (Suc n)) = Inr (vmask ! Suc n)"
    using Suc.prems(1) by (simp add: py_get_def del: of_nat_Suc)
  show ?case
  proof (cases "vmask ! Suc n")
    case True
    then show ?thesis using g by (subst walk_back.simps) simp
  next
    case False
    show ?thesis
    proof (cases "n = 0")
      case True
      then show ?thesis using g False by (subst walk_back.simps) simp
    next
      case nz: False
      then have "walk_back vmask (int n) = Inr (int (spec_walk vmask n))"
        using Suc by simp
      then show ?thesis using g False nz by (subst walk_back.simps) simp
    qed
  qed
qed

lemma Max_np_where_less:
  "np_where vmask \<noteq> [] \<Longrightarrow> Max (set (np_where vmask)) < length vmask"
proof -
  assume "np_where vmask \<noteq> []"
  then have "Max (set (np_where vmask)) \<in> set (np_where vmask)"
    by (intro Max_in) simp_all
  then show ?thesis by (simp add: np_where_def)
qed

lemma Max_np_where_valid:
  "np_where vmask \<noteq> [] \<Longrightarrow> vmask ! Max (set (np_where vmask))"
proof -
  assume "np_where vmask \<noteq> []"
  then have "Max (set (np_where vmask)) \<in> set (np_where vmask)"
    by (intro Max_in) simp_all
  then show ?thesis by (simp add: np_where_def)
qed

lemma expert_index_after_first_step:
  assumes "np_where vmask \<noteq> []" and "0 < step \<or> vmask ! 0"
  shows "expert_index vmask step =
           Inr (Max (set (np_where vmask)), int (spec_expert_index vmask step))"
proof -
  let ?m = "Max (set (np_where vmask))"
  have lt: "min step ?m < length vmask"
    using Max_np_where_less [OF assms(1)] by simp
  have pos: "0 < min step ?m \<or> vmask ! 0"
    using assms(2) Max_np_where_valid [OF assms(1)] by (cases "?m = 0") auto
  have clamp: "(if int step > int ?m then int ?m else int step)
                 = int (min step ?m)"
    by simp
  show ?thesis
    unfolding expert_index_def np_max_np_where [OF assms(1)] spec_expert_index_def
    by (simp only: sum.case clamp walk_back_spec_walk [OF lt pos] prod.case)
qed

lemma expert_index_example:
  "expert_index [True, True, False, False] 3 = Inr (1, 1)"
  by (simp add: expert_index_def np_max_def np_where_def walk_back.simps py_get_def upt_rec)

text \<open>
  Claim C1. For a mask with a valid frame, the matcher clamps the step to the last valid
  index and walks back until a valid frame or index 0, where it stops. The loop of the
  source tests for 0 only after it has decremented: started at step 0 on an invalid frame
  0 it goes to \<open>-1\<close>, which Python reads from the end of the array. With the mask
  \<open>[0, 1]\<close> at step 0 the source resolves index \<open>-1\<close>, the position of frame 1,
  where the specification's walk gives index 0.
\<close>

theorem expert_index_first_frame_invalid:
  "expert_index [False, True] 0 = Inr (1, - 1)
   \<and> py_get [(0, 0, 0), (1, 0, 0) :: real \<times> real \<times> real] (- 1) = Inr (1, 0, 0)
   \<and> spec_expert_index [False, True] 0 = 0"
  by (simp add: expert_index_def np_max_def np_where_def walk_back.simps py_get_def upt_rec
        spec_expert_index_def)

text \<open>
  Claim C2. A mask with no valid frame is said to degrade to index 0 without an error.
  In the source \<^verbatim>\<open>np.max\<close> is applied to the empty array of valid indices and raises
  ValueError before the walk starts, so the reward step returns nothing.
\<close>

theorem reward_function_all_invalid:
  "reward_function (demo_env WAYMO_ENV_CONFIG (demo_vehicle (1, 0)) 0 [False, False] 1)
     ''default_agent'' = Inl ValueError"
  by (simp add: reward_function_def reward_lane_def demo_defs py_lookup_def py_get_def Let_def
        terminal_override_def is_arrive_destination_def is_out_of_road_def py_truediv_def
        expert_diagnostics_def expert_index_def np_max_def np_where_def upt_rec)

subsection \<open>Termination\<close>

lemma py_lookup_Inr [simp]: "(py_lookup d k = Inr v) = (d k = Some v)"
  by (simp add: py_lookup_def split: option.splits)

lemma crash_aggregate_eq:
  "info CRASH_VEHICLE = Some a \<Longrightarrow> info CRASH_OBJECT = Some b \<Longrightarrow> info CRASH_BUILDING = Some c \<Longrightarrow>
   crash_aggregate info = Inr (a \<or> b \<or> c)"
  by (auto simp: crash_aggregate_def py_lookup_def)

lemma done_function_cases:
  assumes "done_function self vehicle_id = Inr (d, info, self')"
  obtains vehicle rc arrive out where
    "vehicles self vehicle_id = Some vehicle"
    "py_truediv (fst (local_coordinates (reference_trajectory (navigation vehicle)) (position vehicle)))
        (traj_length (reference_trajectory (navigation vehicle))) = Inr rc"
    "is_arrive_destination vehicle = Inr arrive"
    "is_out_of_road self vehicle = Inr out"
    "self' = self"
    "d = ((arrive \<or> done_route_check rc) \<or> (out \<or> rc < - 0.1)
          \<or> (crash_vehicle vehicle \<and> crash_vehicle_done (config self))
          \<or> crash_object vehicle \<or> crash_building vehicle)"
    "info = flags_of (arrive \<or> done_route_check rc) (out \<or> rc < - 0.1)
              (crash_vehicle vehicle \<and> crash_vehicle_done (config self))
              (crash_object vehicle) (crash_building vehicle)"
proof -
  from assms obtain vehicle where v: "vehicles self vehicle_id = Some vehicle"
    by (auto simp: done_function_def split: sum.splits)
  let ?long = "fst (local_coordinates (reference_trajectory (navigation vehicle)) (position vehicle))"
  let ?len = "traj_length (reference_trajectory (navigation vehicle))"
  from assms v obtain rc where rc: "py_truediv ?long ?len = Inr rc"
    by (auto simp: done_function_def Let_def split: sum.splits)
  from assms v rc obtain arrive where a: "is_arrive_destination vehicle = Inr arrive"
    by (auto simp: done_function_def Let_def split: sum.splits)
  from assms v rc a obtain out where out: "is_out_of_road self vehicle = Inr out"
    by (auto simp: done_function_def Let_def split: sum.splits prod.splits)
  let ?A = "arrive \<or> done_route_check rc" and ?O = "out \<or> rc < - 0.1"
  let ?V = "crash_vehicle vehicle \<and> crash_vehicle_done (config self)"
  have eq: "done_function self vehicle_id =
      Inr ((?A \<or> ?O \<or> ?V \<or> crash_object vehicle \<or> crash_building vehicle),
           flags_of ?A ?O ?V (crash_object vehicle) (crash_building vehicle), self)"
    unfolding done_function_def using v rc a out
    by (cases ?A; cases ?O; cases ?V; cases "crash_object vehicle"; cases "crash_building vehicle")
       (simp_all add: Let_def crash_aggregate_def py_lookup_def init_done_info_def
          TerminationState_defs flags_of_def fun_eq_iff del: py_lookup_Inr)
  from assms eq have "(d, info, self') =
      ((?A \<or> ?O \<or> ?V \<or> crash_object vehicle \<or> crash_building vehicle),
           flags_of ?A ?O ?V (crash_object vehicle) (crash_building vehicle), self)"
    by (simp only: sum.inject)
  then have "self' = self"
    and "d = (?A \<or> ?O \<or> ?V \<or> crash_object vehicle \<or> crash_building vehicle)"
    and "info = flags_of ?A ?O ?V (crash_object vehicle) (crash_building vehicle)"
    by (simp_all only: prod.inject)
  then show thesis
    using that [OF v rc a out] by blast
qed

lemma flags_of_simps:
  "flags_of a out cv co cb ''arrive_dest'' = Some a"
  "flags_of a out cv co cb ''out_of_road'' = Some out"
  "flags_of a out cv co cb ''crash_vehicle'' = Some cv"
  "flags_of a out cv co cb ''crash_object'' = Some co"
  "flags_of a out cv co cb ''crash_building'' = Some cb"
  "flags_of a out cv co cb ''crash'' = Some (cv \<or> co \<or> cb)"
  by (simp_all add: flags_of_def)

lemma is_arrive_destination_rc:
  assumes "py_truediv (fst (local_coordinates (reference_trajectory (navigation vehicle))
               (position vehicle))) (traj_length (reference_trajectory (navigation vehicle))) = Inr rc"
  shows "is_arrive_destination vehicle = Inr (0.95 < rc)"
  using assms by (simp add: is_arrive_destination_def Let_def)

lemma py_truediv_Inr: "py_truediv a b = Inr q \<Longrightarrow> b \<noteq> 0 \<and> q = a / b"
  by (auto simp: py_truediv_def split: if_splits)

text \<open>
  At a route completion of 0.97 the arrival helper answers true and the inline test of
  line 166 answers false: the two do not compare with the same constant.
\<close>

theorem inline_threshold_counterexample:
  "is_arrive_destination (demo_vehicle (97, 0)) = Inr True
   \<and> py_truediv 97 (traj_length (reference_trajectory (navigation (demo_vehicle (97, 0)))))
       = Inr (97 / 100)
   \<and> \<not> done_route_check (97 / 100)"
  by (simp add: is_arrive_destination_def demo_defs py_truediv_def done_route_check_def)

text \<open>
  Claim C3. The claim says the inline route-completion test of the done evaluation uses
  the same 0.95 threshold as the arrival helper. The inline test of line 166 compares
  with 1.0: at a route completion of 0.97 the helper answers true and the inline test
  false. The two are joined by \<^verbatim>\<open>or\<close>, and a value above 1.0 is above 0.95, so the
  inline test never changes the flag: \<^verbatim>\<open>arrive_dest\<close> is the helper's answer.
\<close>

theorem arrive_flag_is_helper:
  assumes "done_function self vehicle_id = Inr (d, info, self')"
    and "vehicles self vehicle_id = Some vehicle"
  shows "is_arrive_destination vehicle = Inr (info ''arrive_dest'' = Some True)"
proof -
  from assms(1) obtain vehicle' rc arrive out where
    v: "vehicles self vehicle_id = Some vehicle'"
    and rc: "py_truediv (fst (local_coordinates (reference_trajectory (navigation vehicle'))
               (position vehicle'))) (traj_length (reference_trajectory (navigation vehicle'))) = Inr rc"
    and a: "is_arrive_destination vehicle' = Inr arrive"
    and info: "info = flags_of (arrive \<or> done_route_check rc) (out \<or> rc < - 0.1)
              (crash_vehicle vehicle' \<and> crash_vehicle_done (config self))
              (crash_object vehicle') (crash_building vehicle')"
    by (rule done_function_cases)
  from v assms(2) have [simp]: "vehicle' = vehicle" by simp
  have "arrive = (0.95 < rc)"
    using is_arrive_destination_rc [OF rc] a by simp
  then have "done_route_check rc \<longrightarrow> arrive"
    by (simp add: done_route_check_def)
  then show ?thesis using a info by (auto simp: flags_of_simps)
qed

theorem arrive_flag_is_helper_witness:
  "done_function (demo_env WAYMO_ENV_CONFIG (demo_vehicle (97, 0)) 0 [True] 1) ''default_agent''
     = Inr (True, flags_of True False False False False,
            demo_env WAYMO_ENV_CONFIG (demo_vehicle (97, 0)) 0 [True] 1)
   \<and> is_arrive_destination (demo_vehicle (97, 0)) = Inr True"
proof -
  let ?e = "demo_env WAYMO_ENV_CONFIG (demo_vehicle (97, 0)) 0 [True] 1"
  have 1: "done_function ?e ''default_agent'' = Inr (True, flags_of True False False False False, ?e)"
    by (simp add: done_function_def demo_defs py_lookup_def Let_def
        is_arrive_destination_def is_out_of_road_def py_truediv_def done_route_check_def
        crash_aggregate_def init_done_info_def TerminationState_defs flags_of_def fun_eq_iff)
  have 2: "vehicles ?e ''default_agent'' = Some (demo_vehicle (97, 0))"
    by (simp add: demo_env_def)
  show ?thesis
    using arrive_flag_is_helper [OF 1 2] 1 by (simp add: flags_of_simps)
qed

lemma done_function_for:
  assumes "done_function self vehicle_id = Inr (d, info, self')"
    and "vehicles self vehicle_id = Some vehicle"
  obtains rc out where
    "rc = vehicle_rc vehicle"
    "is_out_of_road self vehicle = Inr out"
    "self' = self"
    "d = (0.95 < rc \<or> (out \<or> rc < - 0.1)
          \<or> (crash_vehicle vehicle \<and> crash_vehicle_done (config self))
          \<or> crash_object vehicle \<or> crash_building vehicle)"
    "info = flags_of (0.95 < rc) (out \<or> rc < - 0.1)
              (crash_vehicle vehicle \<and> crash_vehicle_done (config self))
              (crash_object vehicle) (crash_building vehicle)"
proof -
  from assms(1) obtain vehicle' rc arrive out where
    v: "vehicles self vehicle_id = Some vehicle'"
    and rc: "py_truediv (fst (local_coordinates (reference_trajectory (navigation vehicle'))
               (position vehicle'))) (traj_length (reference_trajectory (navigation vehicle'))) = Inr rc"
    and a: "is_arrive_destination vehicle' = Inr arrive"
    and out: "is_out_of_road self vehicle' = Inr out"
    and s: "self' = self"
    and d: "d = ((arrive \<or> done_route_check rc) \<or> (out \<or> rc < - 0.1)
          \<or> (crash_vehicle vehicle' \<and> crash_vehicle_done (config self))
          \<or> crash_object vehicle' \<or> crash_building vehicle')"
    and info: "info = flags_of (arrive \<or> done_route_check rc) (out \<or> rc < - 0.1)
              (crash_vehicle vehicle' \<and> crash_vehicle_done (config self))
              (crash_object vehicle') (crash_building vehicle')"
    by (rule done_function_cases)
  from v assms(2) have veq: "vehicle' = vehicle" by simp
  have "arrive = (0.95 < rc)"
    using is_arrive_destination_rc [OF rc] a by simp
  then have A: "(arrive \<or> done_route_check rc) = (0.95 < rc)"
    by (auto simp: done_route_check_def)
  have R: "rc = vehicle_rc vehicle"
    using py_truediv_Inr [OF rc] veq by simp
  show thesis
    using that [OF R] out s d info unfolding A veq by blast
qed

text \<open>
  Claim C4. Whenever the done evaluation returns, \<^verbatim>\<open>done\<close> is the disjunction of the
  five reason flags; \<^verbatim>\<open>crash_vehicle\<close> is set only with \<^verbatim>\<open>crash_vehicle_done\<close>
  enabled, \<^verbatim>\<open>crash_object\<close> and \<^verbatim>\<open>crash_building\<close> follow the vehicle's flags, and
  the aggregate \<^verbatim>\<open>crash\<close> is the disjunction of the three crash flags.
\<close>

theorem done_is_or_of_reasons:
  assumes "done_function self vehicle_id = Inr (d, info, self')"
    and "vehicles self vehicle_id = Some vehicle"
  shows "d = (info ''arrive_dest'' = Some True \<or> info ''out_of_road'' = Some True
              \<or> info ''crash_vehicle'' = Some True \<or> info ''crash_object'' = Some True
              \<or> info ''crash_building'' = Some True)
       \<and> info ''crash_vehicle''
            = Some (crash_vehicle vehicle \<and> crash_vehicle_done (config self))
       \<and> info ''crash_object'' = Some (crash_object vehicle)
       \<and> info ''crash_building'' = Some (crash_building vehicle)
       \<and> info ''crash''
            = Some (info ''crash_vehicle'' = Some True \<or> info ''crash_object'' = Some True
                    \<or> info ''crash_building'' = Some True)"
proof -
  from assms obtain rc :: real and out where
    d: "d = (0.95 < rc \<or> (out \<or> rc < - 0.1)
          \<or> (crash_vehicle vehicle \<and> crash_vehicle_done (config self))
          \<or> crash_object vehicle \<or> crash_building vehicle)"
    and info: "info = flags_of (0.95 < rc) (out \<or> rc < - 0.1)
              (crash_vehicle vehicle \<and> crash_vehicle_done (config self))
              (crash_object vehicle) (crash_building vehicle)"
    by (rule done_function_for)
  show ?thesis unfolding d info flags_of_simps by simp
qed

text \<open>
  Claim C5. The \<^verbatim>\<open>arrive_dest\<close> flag is true when the route completion is above 0.95
  and false when it is at or below 0.95.
\<close>

theorem arrive_dest_threshold:
  assumes "done_function self vehicle_id = Inr (d, info, self')"
    and "vehicles self vehicle_id = Some vehicle"
  shows "info ''arrive_dest'' = Some (0.95 < vehicle_rc vehicle)"
proof -
  from assms obtain rc out where
    rc: "rc = vehicle_rc vehicle"
    and info: "info = flags_of (0.95 < rc) (out \<or> rc < - 0.1)
              (crash_vehicle vehicle \<and> crash_vehicle_done (config self))
              (crash_object vehicle) (crash_building vehicle)"
    by (rule done_function_for)
  show ?thesis unfolding info flags_of_simps rc ..
qed

lemmas run_defs =
  done_function_def cost_function_def demo_defs py_lookup_def Let_def
  is_arrive_destination_def is_out_of_road_def py_truediv_def done_route_check_def
  crash_aggregate_def init_done_info_def TerminationState_defs

theorem done_is_or_of_reasons_witness:
  "done_function
     (demo_env WAYMO_ENV_CONFIG ((demo_vehicle (50, 0))\<lparr>crash_vehicle := True\<rparr>) 0 [True] 1)
     ''default_agent''
   = Inr (False, flags_of False False False False False,
          demo_env WAYMO_ENV_CONFIG ((demo_vehicle (50, 0))\<lparr>crash_vehicle := True\<rparr>) 0 [True] 1)
   \<and> done_function
     (demo_env WAYMO_ENV_CONFIG ((demo_vehicle (50, 0))\<lparr>crash_building := True\<rparr>) 0 [True] 1)
     ''default_agent''
   = Inr (True, flags_of False False False False True,
          demo_env WAYMO_ENV_CONFIG ((demo_vehicle (50, 0))\<lparr>crash_building := True\<rparr>) 0 [True] 1)"
proof -
  let ?v = "(demo_vehicle (50, 0))\<lparr>crash_vehicle := True\<rparr>"
  let ?w = "(demo_vehicle (50, 0))\<lparr>crash_building := True\<rparr>"
  let ?e = "demo_env WAYMO_ENV_CONFIG ?v 0 [True] 1"
  let ?f = "demo_env WAYMO_ENV_CONFIG ?w 0 [True] 1"
  have 1: "done_function ?e ''default_agent''
             = Inr (False, flags_of False False False False False, ?e)"
    by (simp add: run_defs flags_of_def fun_eq_iff)
  have 2: "vehicles ?e ''default_agent'' = Some ?v"
    by (simp add: demo_env_def)
  have 3: "done_function ?f ''default_agent''
             = Inr (True, flags_of False False False False True, ?f)"
    by (simp add: run_defs flags_of_def fun_eq_iff)
  have 4: "vehicles ?f ''default_agent'' = Some ?w"
    by (simp add: demo_env_def)
  show ?thesis
    using done_is_or_of_reasons [OF 1 2] done_is_or_of_reasons [OF 3 4] 1 3 by simp
qed

theorem arrive_dest_threshold_witness:
  "done_function (demo_env WAYMO_ENV_CONFIG (demo_vehicle (95, 0)) 0 [True] 1) ''default_agent''
     = Inr (False, flags_of False False False False False,
            demo_env WAYMO_ENV_CONFIG (demo_vehicle (95, 0)) 0 [True] 1)
   \<and> flags_of False False False False False ''arrive_dest''
       = Some (0.95 < vehicle_rc (demo_vehicle (95, 0)))
   \<and> done_function (demo_env WAYMO_ENV_CONFIG (demo_vehicle (96, 0)) 0 [True] 1) ''default_agent''
     = Inr (True, flags_of True False False False False,
            demo_env WAYMO_ENV_CONFIG (demo_vehicle (96, 0)) 0 [True] 1)
   \<and> flags_of True False False False False ''arrive_dest''
       = Some (0.95 < vehicle_rc (demo_vehicle (96, 0)))"
proof -
  let ?e = "demo_env WAYMO_ENV_CONFIG (demo_vehicle (95, 0)) 0 [True] 1"
  let ?f = "demo_env WAYMO_ENV_CONFIG (demo_vehicle (96, 0)) 0 [True] 1"
  have 1: "done_function ?e ''default_agent''
             = Inr (False, flags_of False False False False False, ?e)"
    by (simp add: run_defs flags_of_def fun_eq_iff)
  have 2: "vehicles ?e ''default_agent'' = Some (demo_vehicle (95, 0))"
    by (simp add: demo_env_def)
  have 3: "done_function ?f ''default_agent''
             = Inr (True, flags_of True False False False False, ?f)"
    by (simp add: run_defs flags_of_def fun_eq_iff)
  have 4: "vehicles ?f ''default_agent'' = Some (demo_vehicle (96, 0))"
    by (simp add: demo_env_def)
  show ?thesis
    using arrive_dest_threshold [OF 1 2] arrive_dest_threshold [OF 3 4] 1 3 by simp
qed

lemma is_out_of_road_relaxed:
  assumes "relax_out_of_road_done (config self)"
    and "object_to_agent self (name vehicle) = Some agent_name"
    and "observations self agent_name = Some ob"
  shows "is_out_of_road self vehicle
           = Inr (10 < \<bar>lateral_dist ob\<bar> \<or> on_yellow_continuous_line vehicle
                  \<or> crash_sidewalk vehicle)"
  using assms by (simp add: is_out_of_road_def py_lookup_def Let_def)

text \<open>
  Claim C6. A route completion below \<open>-0.1\<close> sets \<^verbatim>\<open>out_of_road\<close> whatever the other
  flags; in relaxed mode the out-of-road predicate is true exactly when the absolute
  cached lateral distance is above 10, or the vehicle is on a continuous yellow line,
  or on a sidewalk.
\<close>

theorem out_of_road_flag:
  assumes "done_function self vehicle_id = Inr (d, info, self')"
    and "vehicles self vehicle_id = Some vehicle"
  shows "(vehicle_rc vehicle < - 0.1 \<longrightarrow> info ''out_of_road'' = Some True)
       \<and> (relax_out_of_road_done (config self)
            \<and> object_to_agent self (name vehicle) = Some agent_name
            \<and> observations self agent_name = Some ob
          \<longrightarrow> is_out_of_road self vehicle
                = Inr (10 < \<bar>lateral_dist ob\<bar> \<or> on_yellow_continuous_line vehicle
                       \<or> crash_sidewalk vehicle)
              \<and> info ''out_of_road''
                = Some ((10 < \<bar>lateral_dist ob\<bar> \<or> on_yellow_continuous_line vehicle
                         \<or> crash_sidewalk vehicle) \<or> vehicle_rc vehicle < - 0.1))"
proof -
  from assms obtain rc out where
    rc: "rc = vehicle_rc vehicle"
    and out: "is_out_of_road self vehicle = Inr out"
    and info: "info = flags_of (0.95 < rc) (out \<or> rc < - 0.1)
              (crash_vehicle vehicle \<and> crash_vehicle_done (config self))
              (crash_object vehicle) (crash_building vehicle)"
    by (rule done_function_for)
  have oor: "info ''out_of_road'' = Some (out \<or> vehicle_rc vehicle < - 0.1)"
    unfolding info flags_of_simps rc ..
  show ?thesis
  proof (intro conjI impI)
    assume "vehicle_rc vehicle < - 0.1"
    then show "info ''out_of_road'' = Some True" using oor by simp
  next
    assume h: "relax_out_of_road_done (config self)
            \<and> object_to_agent self (name vehicle) = Some agent_name
            \<and> observations self agent_name = Some ob"
    then show r: "is_out_of_road self vehicle
                = Inr (10 < \<bar>lateral_dist ob\<bar> \<or> on_yellow_continuous_line vehicle
                       \<or> crash_sidewalk vehicle)"
      by (simp add: is_out_of_road_relaxed)
    from r out have "out = (10 < \<bar>lateral_dist ob\<bar> \<or> on_yellow_continuous_line vehicle
                       \<or> crash_sidewalk vehicle)" by simp
    then show "info ''out_of_road''
                = Some ((10 < \<bar>lateral_dist ob\<bar> \<or> on_yellow_continuous_line vehicle
                         \<or> crash_sidewalk vehicle) \<or> vehicle_rc vehicle < - 0.1)"
      using oor by simp
  qed
qed

theorem out_of_road_flag_witness:
  "done_function (demo_env WAYMO_ENV_CONFIG (demo_vehicle (- 20, 0)) 9.9999 [True] 1)
      ''default_agent''
     = Inr (True, flags_of False True False False False,
            demo_env WAYMO_ENV_CONFIG (demo_vehicle (- 20, 0)) 9.9999 [True] 1)
   \<and> is_out_of_road (demo_env WAYMO_ENV_CONFIG (demo_vehicle (- 20, 0)) 9.9999 [True] 1)
       (demo_vehicle (- 20, 0)) = Inr False
   \<and> is_out_of_road (demo_env WAYMO_ENV_CONFIG (demo_vehicle (50, 0)) (- 10.0001) [True] 1)
       (demo_vehicle (50, 0)) = Inr True"
proof -
  let ?v = "demo_vehicle (- 20, 0)" and ?w = "demo_vehicle (50, 0)"
  let ?e = "demo_env WAYMO_ENV_CONFIG ?v 9.9999 [True] 1"
  let ?f = "demo_env WAYMO_ENV_CONFIG ?w (- 10.0001) [True] 1"
  have 1: "done_function ?e ''default_agent''
             = Inr (True, flags_of False True False False False, ?e)"
    by (simp add: run_defs flags_of_def fun_eq_iff)
  have 2: "vehicles ?e ''default_agent'' = Some ?v"
    by (simp add: demo_env_def)
  have 3: "done_function ?f ''default_agent''
             = Inr (True, flags_of False True False False False, ?f)"
    by (simp add: run_defs flags_of_def fun_eq_iff)
  have 4: "vehicles ?f ''default_agent'' = Some ?w"
    by (simp add: demo_env_def)
  have 5: "relax_out_of_road_done (config ?e) \<and> object_to_agent ?e (name ?v) = Some ''default_agent''
           \<and> observations ?e ''default_agent'' = Some \<lparr>lateral_dist = 9.9999\<rparr>"
    by (simp add: demo_defs)
  have 6: "relax_out_of_road_done (config ?f) \<and> object_to_agent ?f (name ?w) = Some ''default_agent''
           \<and> observations ?f ''default_agent'' = Some \<lparr>lateral_dist = - 10.0001\<rparr>"
    by (simp add: demo_defs)
  have 7: "vehicle_rc ?v < - 0.1" by (simp add: demo_defs)
  show ?thesis
    using out_of_road_flag [OF 1 2, of "''default_agent''" "\<lparr>lateral_dist = 9.9999\<rparr>"]
      out_of_road_flag [OF 3 4, of "''default_agent''" "\<lparr>lateral_dist = - 10.0001\<rparr>"]
      1 5 6 7
    by (simp add: demo_vehicle_def)
qed

subsection \<open>Cost\<close>

text \<open>
  Claim C7. The cost is decided by the first match, in this order: out of road gives the
  out-of-road cost, else a vehicle crash gives the vehicle cost, else an object crash
  gives the object cost, else the cost is 0. A building crash is not in the chain.
\<close>

theorem cost_first_match:
  assumes "cost_function self vehicle_id = Inr (c, step_info, self')"
    and "vehicles self vehicle_id = Some vehicle"
  shows "c = (if is_out_of_road self vehicle = Inr True then out_of_road_cost (config self)
              else if crash_vehicle vehicle then crash_vehicle_cost (config self)
              else if crash_object vehicle then crash_object_cost (config self)
              else 0)
         \<and> step_info = [''cost'' \<mapsto> c]"
proof -
  from assms obtain out where out: "is_out_of_road self vehicle = Inr out"
    by (auto simp: cost_function_def split: sum.splits)
  show ?thesis
    using assms out
    by (auto simp: cost_function_def Let_def py_lookup_def split: if_splits)
qed

theorem cost_first_match_witness:
  "cost_function
     (demo_env (WAYMO_ENV_CONFIG\<lparr>out_of_road_cost := 5, crash_vehicle_cost := 2\<rparr>)
        ((demo_vehicle (50, 0))\<lparr>crash_vehicle := True\<rparr>) 11 [True] 1) ''default_agent''
   = Inr (5, [''cost'' \<mapsto> 5],
          demo_env (WAYMO_ENV_CONFIG\<lparr>out_of_road_cost := 5, crash_vehicle_cost := 2\<rparr>)
            ((demo_vehicle (50, 0))\<lparr>crash_vehicle := True\<rparr>) 11 [True] 1)
   \<and> cost_function
     (demo_env WAYMO_ENV_CONFIG ((demo_vehicle (50, 0))\<lparr>crash_building := True\<rparr>) 0 [True] 1)
     ''default_agent''
   = Inr (0, [''cost'' \<mapsto> 0],
          demo_env WAYMO_ENV_CONFIG ((demo_vehicle (50, 0))\<lparr>crash_building := True\<rparr>) 0
            [True] 1)"
proof -
  let ?c = "WAYMO_ENV_CONFIG\<lparr>out_of_road_cost := 5, crash_vehicle_cost := 2\<rparr>"
  let ?v = "(demo_vehicle (50, 0))\<lparr>crash_vehicle := True\<rparr>"
  let ?w = "(demo_vehicle (50, 0))\<lparr>crash_building := True\<rparr>"
  let ?e = "demo_env ?c ?v 11 [True] 1"
  let ?f = "demo_env WAYMO_ENV_CONFIG ?w 0 [True] 1"
  have 1: "cost_function ?e ''default_agent'' = Inr (5, [''cost'' \<mapsto> 5], ?e)"
    by (simp add: run_defs)
  have 2: "vehicles ?e ''default_agent'' = Some ?v"
    by (simp add: demo_env_def)
  have 3: "cost_function ?f ''default_agent'' = Inr (0, [''cost'' \<mapsto> 0], ?f)"
    by (simp add: run_defs)
  have 4: "vehicles ?f ''default_agent'' = Some ?w"
    by (simp add: demo_env_def)
  show ?thesis
    using cost_first_match [OF 1 2] cost_first_match [OF 3 4] 1 3 by simp
qed

subsection \<open>Reward\<close>

lemma terminal_override_Inr:
  assumes "terminal_override self vehicle r0 = Inr reward"
  shows "reward = (if is_arrive_destination vehicle = Inr True then success_reward (config self)
                  else if is_out_of_road self vehicle = Inr True
                    then - out_of_road_penalty (config self)
                  else if crash_vehicle vehicle then - crash_vehicle_penalty (config self)
                  else if crash_object vehicle then - crash_object_penalty (config self)
                  else r0)"
  using assms
  by (auto simp: terminal_override_def split: sum.splits if_splits)

lemma reward_function_cases:
  assumes "reward_function self vehicle_id = Inr (reward, step_info, self')"
  obtains vehicle current_lane ob where
    "vehicles self vehicle_id = Some vehicle"
    "reward_lane vehicle = Inr current_lane"
    "observations self vehicle_id = Some ob"
    "self' = self\<lparr>observations := (observations self)
               (vehicle_id \<mapsto> ob\<lparr>lateral_dist :=
                  snd (local_coordinates (current_sdc_route self) (position vehicle))\<rparr>)\<rparr>"
    "step_reward step_info =
       0 + driving_reward (config self)
         * (fst (local_coordinates current_lane (position vehicle))
            - fst (local_coordinates current_lane (last_position vehicle)))
         * (if use_lateral_reward (config self)
            then clip (1 - 2 * \<bar>snd (local_coordinates current_lane (position vehicle))\<bar> / 6) 0.0 1.0
            else 1.0)"
    "terminal_override self' vehicle (step_reward step_info) = Inr reward"
proof -
  from assms obtain vehicle where v: "vehicles self vehicle_id = Some vehicle"
    by (auto simp: reward_function_def split: sum.splits)
  from assms v obtain current_lane where l: "reward_lane vehicle = Inr current_lane"
    by (auto simp: reward_function_def split: sum.splits)
  from assms v l obtain ob where ob: "observations self vehicle_id = Some ob"
    by (auto simp: reward_function_def Let_def split: sum.splits)
  show thesis
    using assms v l ob that [OF v l ob]
    by (auto simp: reward_function_def Let_def py_lookup_def split: sum.splits prod.splits)
qed

lemmas reward_run_defs =
  reward_function_def reward_lane_def terminal_override_def expert_diagnostics_def
  expert_index_def np_max_def np_where_def upt_rec walk_back.simps py_get_def
  first_two_def vec_sub_def clip_def

text \<open>
  Claim C8. The dense reward \<open>driving_reward * (long_now - long_last) * lateral_factor\<close>
  is what \<^verbatim>\<open>step_reward\<close> records, and the returned reward is that value replaced,
  not increased, by the first terminal case that holds: arrival gives the success reward,
  else out of road the negated out-of-road penalty, else a vehicle crash the negated
  vehicle penalty, else an object crash the negated object penalty.
\<close>

theorem reward_override_replaces:
  assumes "reward_function self vehicle_id = Inr (reward, step_info, self')"
    and "vehicles self vehicle_id = Some vehicle"
    and "reward_lane vehicle = Inr current_lane"
  shows "step_reward step_info
           = driving_reward (config self)
             * (fst (local_coordinates current_lane (position vehicle))
                - fst (local_coordinates current_lane (last_position vehicle)))
             * (if use_lateral_reward (config self)
                then clip (1 - 2 * \<bar>snd (local_coordinates current_lane (position vehicle))\<bar> / 6) 0 1
                else 1)
       \<and> reward
           = (if is_arrive_destination vehicle = Inr True then success_reward (config self)
              else if is_out_of_road self' vehicle = Inr True
                then - out_of_road_penalty (config self)
              else if crash_vehicle vehicle then - crash_vehicle_penalty (config self)
              else if crash_object vehicle then - crash_object_penalty (config self)
              else step_reward step_info)"
proof -
  from assms(1) obtain vehicle' current_lane' ob where
    v: "vehicles self vehicle_id = Some vehicle'"
    and l: "reward_lane vehicle' = Inr current_lane'"
    and s: "self' = self\<lparr>observations := (observations self)
               (vehicle_id \<mapsto> ob\<lparr>lateral_dist :=
                  snd (local_coordinates (current_sdc_route self) (position vehicle'))\<rparr>)\<rparr>"
    and sr: "step_reward step_info =
       0 + driving_reward (config self)
         * (fst (local_coordinates current_lane' (position vehicle'))
            - fst (local_coordinates current_lane' (last_position vehicle')))
         * (if use_lateral_reward (config self)
            then clip (1 - 2 * \<bar>snd (local_coordinates current_lane' (position vehicle'))\<bar> / 6) 0.0 1.0
            else 1.0)"
    and t: "terminal_override self' vehicle' (step_reward step_info) = Inr reward"
    by (rule reward_function_cases)
  from v assms(2) have veq: "vehicle' = vehicle" by simp
  from l assms(3) veq have leq: "current_lane' = current_lane" by simp
  have c: "config self' = config self" using s by simp
  show ?thesis
    using sr terminal_override_Inr [OF t] unfolding veq leq c by simp
qed

theorem reward_override_replaces_witness:
  "reward_function (demo_env WAYMO_ENV_CONFIG (demo_vehicle (97, 0)) 0 [True] 1) ''default_agent''
     = Inr (10,
            \<lparr>step_reward = 97, track_length = 100, current_distance = 97,
             route_completion = 97 / 100, carsize = [2, 4],
             distance_error = Some (np_linalg_norm (97, 0)),
             distance_error_final = Some (np_linalg_norm (97, 0)),
             info_dynamics_mode = None\<rparr>,
            demo_env WAYMO_ENV_CONFIG (demo_vehicle (97, 0)) 0 [True] 1)
   \<and> reward_function (demo_env WAYMO_ENV_CONFIG (demo_vehicle (50, 0)) 0 [True] 1) ''default_agent''
     = Inr (50,
            \<lparr>step_reward = 50, track_length = 100, current_distance = 50,
             route_completion = 50 / 100, carsize = [2, 4],
             distance_error = Some (np_linalg_norm (50, 0)),
             distance_error_final = Some (np_linalg_norm (50, 0)),
             info_dynamics_mode = None\<rparr>,
            demo_env WAYMO_ENV_CONFIG (demo_vehicle (50, 0)) 0 [True] 1)"
proof -
  let ?v = "demo_vehicle (97, 0)" and ?w = "demo_vehicle (50, 0)"
  let ?e = "demo_env WAYMO_ENV_CONFIG ?v 0 [True] 1"
  let ?f = "demo_env WAYMO_ENV_CONFIG ?w 0 [True] 1"
  let ?si = "\<lparr>step_reward = 97, track_length = 100, current_distance = 97,
             route_completion = 97 / 100, carsize = [2, 4],
             distance_error = Some (np_linalg_norm (97, 0)),
             distance_error_final = Some (np_linalg_norm (97, 0)),
             info_dynamics_mode = None\<rparr>"
  let ?sj = "\<lparr>step_reward = 50, track_length = 100, current_distance = 50,
             route_completion = 50 / 100, carsize = [2, 4],
             distance_error = Some (np_linalg_norm (50, 0)),
             distance_error_final = Some (np_linalg_norm (50, 0)),
             info_dynamics_mode = None\<rparr>"
  have 1: "reward_function ?e ''default_agent'' = Inr (10, ?si, ?e)"
    by (simp add: reward_run_defs run_defs)
  have 2: "vehicles ?e ''default_agent'' = Some ?v"
    by (simp add: demo_env_def)
  have 3: "reward_lane ?v = Inr demo_lane"
    by (simp add: reward_lane_def demo_defs)
  have 4: "reward_function ?f ''default_agent'' = Inr (50, ?sj, ?f)"
    by (simp add: reward_run_defs run_defs)
  have 5: "vehicles ?f ''default_agent'' = Some ?w"
    by (simp add: demo_env_def)
  have 6: "reward_lane ?w = Inr demo_lane"
    by (simp add: reward_lane_def demo_defs)
  show ?thesis
    using reward_override_replaces [OF 1 2 3] reward_override_replaces [OF 4 5 6] 1 4 by simp
qed

subsection \<open>Seed selection\<close>

text \<open>
  Claim C9. In sequential mode the seed starts at the window start when there is no prior
  seed, and otherwise is the prior seed plus one, wrapped to the window start once it
  reaches \<open>start + num_scenario\<close>. Whatever the mode and whether or not the seed is
  forced, a seed the function returns with lies in the window, and a forced seed outside
  the window ends in the assertion.
\<close>

theorem reset_global_seed_window:
  "(sequential_seed (config self) \<and> global_seed self = None \<and> 0 < num_scenario (config self)
      \<longrightarrow> reset_global_seed self None r
            = Inr (self\<lparr>global_seed := Some (start_scenario_index (config self))\<rparr>))
   \<and> (sequential_seed (config self) \<and> global_seed self = Some g
        \<and> start_scenario_index (config self) \<le> g
        \<and> g < start_scenario_index (config self) + num_scenario (config self)
      \<longrightarrow> reset_global_seed self None r
            = Inr (self\<lparr>global_seed :=
                     Some (if g + 1 \<ge> start_scenario_index (config self) + num_scenario (config self)
                           then start_scenario_index (config self) else g + 1)\<rparr>))
   \<and> (reset_global_seed self force_seed r = Inr self'
      \<longrightarrow> (\<exists>seed. self' = self\<lparr>global_seed := Some seed\<rparr>
                  \<and> start_scenario_index (config self) \<le> seed
                  \<and> seed < start_scenario_index (config self) + num_scenario (config self)))
   \<and> (\<not> (start_scenario_index (config self) \<le> f
           \<and> f < start_scenario_index (config self) + num_scenario (config self))
      \<longrightarrow> reset_global_seed self (Some f) r = Inl AssertionError)"
proof (intro conjI impI)
  assume "sequential_seed (config self) \<and> global_seed self = None \<and> 0 < num_scenario (config self)"
  then show "reset_global_seed self None r
            = Inr (self\<lparr>global_seed := Some (start_scenario_index (config self))\<rparr>)"
    by (simp add: reset_global_seed_def Let_def)
next
  assume "sequential_seed (config self) \<and> global_seed self = Some g
        \<and> start_scenario_index (config self) \<le> g
        \<and> g < start_scenario_index (config self) + num_scenario (config self)"
  then show "reset_global_seed self None r
            = Inr (self\<lparr>global_seed :=
                     Some (if g + 1 \<ge> start_scenario_index (config self) + num_scenario (config self)
                           then start_scenario_index (config self) else g + 1)\<rparr>)"
    by (simp add: reset_global_seed_def Let_def)
next
  assume "reset_global_seed self force_seed r = Inr self'"
  then show "\<exists>seed. self' = self\<lparr>global_seed := Some seed\<rparr>
                  \<and> start_scenario_index (config self) \<le> seed
                  \<and> seed < start_scenario_index (config self) + num_scenario (config self)"
    unfolding reset_global_seed_def
    by (auto split: sum.splits if_splits)
next
  assume "\<not> (start_scenario_index (config self) \<le> f
           \<and> f < start_scenario_index (config self) + num_scenario (config self))"
  then show "reset_global_seed self (Some f) r = Inl AssertionError"
    by (simp add: reset_global_seed_def)
qed

theorem reset_global_seed_window_witness:
  "reset_global_seed (demo_seed_env True None) None 0
     = Inr ((demo_seed_env True None)\<lparr>global_seed := Some 5\<rparr>)
   \<and> reset_global_seed (demo_seed_env True (Some 7)) None 0
     = Inr ((demo_seed_env True (Some 7))\<lparr>global_seed := Some 5\<rparr>)
   \<and> reset_global_seed (demo_seed_env True (Some 5)) None 0
     = Inr ((demo_seed_env True (Some 5))\<lparr>global_seed := Some 6\<rparr>)
   \<and> reset_global_seed (demo_seed_env False None) None 4
     = Inr ((demo_seed_env False None)\<lparr>global_seed := Some 6\<rparr>)
   \<and> reset_global_seed (demo_seed_env False None) (Some 6) 0
     = Inr ((demo_seed_env False None)\<lparr>global_seed := Some 6\<rparr>)
   \<and> reset_global_seed (demo_seed_env False None) (Some 8) 0 = Inl AssertionError"
proof -
  have c: "\<And>seq g. sequential_seed (config (demo_seed_env seq g)) = seq"
    "\<And>seq g. start_scenario_index (config (demo_seed_env seq g)) = 5"
    "\<And>seq g. num_scenario (config (demo_seed_env seq g)) = 3"
    "\<And>seq g. global_seed (demo_seed_env seq g) = g"
    by (simp_all add: demo_seed_env_def demo_defs)
  have q: "reset_global_seed (demo_seed_env False None) (Some 6) 0
     = Inr ((demo_seed_env False None)\<lparr>global_seed := Some 6\<rparr>)"
    by (simp add: reset_global_seed_def c)
  have r: "reset_global_seed (demo_seed_env False None) None 4
     = Inr ((demo_seed_env False None)\<lparr>global_seed := Some 6\<rparr>)"
    by (simp add: reset_global_seed_def randint_def c)
  show ?thesis
    using reset_global_seed_window [of "demo_seed_env True None" 0 7 None
            "(demo_seed_env True None)\<lparr>global_seed := Some 5\<rparr>" 8]
      reset_global_seed_window [of "demo_seed_env True (Some 7)" 0 7 None
            "(demo_seed_env True (Some 7))\<lparr>global_seed := Some 5\<rparr>" 8]
      reset_global_seed_window [of "demo_seed_env True (Some 5)" 0 5 None
            "(demo_seed_env True (Some 5))\<lparr>global_seed := Some 6\<rparr>" 8]
      reset_global_seed_window [of "demo_seed_env False None" 4 5 None
            "(demo_seed_env False None)\<lparr>global_seed := Some 6\<rparr>" 8]
      reset_global_seed_window [of "demo_seed_env False None" 0 5 "Some 6"
            "(demo_seed_env False None)\<lparr>global_seed := Some 6\<rparr>" 8]
      r q
    by (simp add: c)
qed

subsection \<open>Who writes the cached lateral distance\<close>

lemma cost_function_for:
  assumes "cost_function self vehicle_id = Inr (c, cost_info, self')"
    and "vehicles self vehicle_id = Some vehicle"
    and "is_out_of_road self vehicle = Inr out"
  shows "c = (if out then out_of_road_cost (config self)
              else if crash_vehicle vehicle then crash_vehicle_cost (config self)
              else if crash_object vehicle then crash_object_cost (config self)
              else 0)"
    and "cost_info = [''cost'' \<mapsto> c]"
    and "self' = self"
  using assms
  by (auto simp: cost_function_def Let_def py_lookup_def split: if_splits)

lemma reward_function_config:
  assumes "reward_function self vehicle_id = Inr (reward, step_info, sr)"
  shows "config sr = config self"
  using assms by (rule reward_function_cases) simp

lemma is_out_of_road_after_reward:
  assumes r: "reward_function self vehicle_id = Inr (reward, step_info, sr)"
    and v: "vehicles self vehicle_id = Some vehicle"
    and relax: "relax_out_of_road_done (config self)"
    and agent: "object_to_agent self (name next_vehicle) = Some vehicle_id"
  shows "is_out_of_road (sr\<lparr>vehicles := (vehicles sr)(vehicle_id \<mapsto> next_vehicle)\<rparr>)
             next_vehicle
           = Inr (10 < \<bar>snd (local_coordinates (current_sdc_route self) (position vehicle))\<bar>
                  \<or> on_yellow_continuous_line next_vehicle \<or> crash_sidewalk next_vehicle)"
proof -
  from r obtain vehicle' current_lane ob where
    v': "vehicles self vehicle_id = Some vehicle'"
    and s: "sr = self\<lparr>observations := (observations self)
               (vehicle_id \<mapsto> ob\<lparr>lateral_dist :=
                  snd (local_coordinates (current_sdc_route self) (position vehicle'))\<rparr>)\<rparr>"
    by (blast elim: reward_function_cases)
  from v v' have veq: "vehicle' = vehicle" by simp
  let ?nxt = "sr\<lparr>vehicles := (vehicles sr)(vehicle_id \<mapsto> next_vehicle)\<rparr>"
  have 1: "relax_out_of_road_done (config ?nxt)" using relax s by simp
  have 2: "object_to_agent ?nxt (name next_vehicle) = Some vehicle_id" using agent s by simp
  have 3: "observations ?nxt vehicle_id = Some (ob\<lparr>lateral_dist :=
                  snd (local_coordinates (current_sdc_route self) (position vehicle))\<rparr>)"
    using s veq by simp
  show ?thesis
    using is_out_of_road_relaxed [OF 1 2 3] by simp
qed

text \<open>
  Claim C10. The done and the cost evaluations leave the environment as it was; the
  reward evaluation changes the \<^verbatim>\<open>lateral_dist\<close> of the agent's observation and
  nothing else. The done and the cost evaluations read that value: run on the next
  vehicle state before the next reward evaluation, their out-of-road flag, their
  \<^verbatim>\<open>done\<close> and their cost are decided by the lateral distance of the previous
  position, the one the last reward evaluation wrote.
\<close>

theorem lateral_dist_written_by_reward_only:
  "(done_function self vehicle_id = Inr (d, info, sd) \<longrightarrow> sd = self)
   \<and> (cost_function self vehicle_id = Inr (c, cost_info, sc) \<longrightarrow> sc = self)
   \<and> (reward_function self vehicle_id = Inr (reward, step_info, sr)
        \<and> vehicles self vehicle_id = Some vehicle
      \<longrightarrow> (\<exists>ob. observations self vehicle_id = Some ob
             \<and> sr = self\<lparr>observations := (observations self)
                      (vehicle_id \<mapsto> ob\<lparr>lateral_dist :=
                         snd (local_coordinates (current_sdc_route self) (position vehicle))\<rparr>)\<rparr>))
   \<and> (reward_function self vehicle_id = Inr (reward, step_info, sr)
        \<and> vehicles self vehicle_id = Some vehicle
        \<and> relax_out_of_road_done (config self)
        \<and> object_to_agent self (name next_vehicle) = Some vehicle_id
      \<longrightarrow> is_out_of_road (sr\<lparr>vehicles := (vehicles sr)(vehicle_id \<mapsto> next_vehicle)\<rparr>)
             next_vehicle
           = Inr (10 < \<bar>snd (local_coordinates (current_sdc_route self) (position vehicle))\<bar>
                  \<or> on_yellow_continuous_line next_vehicle \<or> crash_sidewalk next_vehicle))
   \<and> (reward_function self vehicle_id = Inr (reward, step_info, sr)
        \<and> vehicles self vehicle_id = Some vehicle
        \<and> relax_out_of_road_done (config self)
        \<and> object_to_agent self (name next_vehicle) = Some vehicle_id
        \<and> done_function (sr\<lparr>vehicles := (vehicles sr)(vehicle_id \<mapsto> next_vehicle)\<rparr>)
             vehicle_id = Inr (d', info', sd')
      \<longrightarrow> info' ''out_of_road''
             = Some ((10 < \<bar>snd (local_coordinates (current_sdc_route self) (position vehicle))\<bar>
                      \<or> on_yellow_continuous_line next_vehicle \<or> crash_sidewalk next_vehicle)
                     \<or> vehicle_rc next_vehicle < - 0.1)
           \<and> d' = (0.95 < vehicle_rc next_vehicle
                   \<or> ((10 < \<bar>snd (local_coordinates (current_sdc_route self) (position vehicle))\<bar>
                        \<or> on_yellow_continuous_line next_vehicle \<or> crash_sidewalk next_vehicle)
                       \<or> vehicle_rc next_vehicle < - 0.1)
                   \<or> (crash_vehicle next_vehicle \<and> crash_vehicle_done (config self))
                   \<or> crash_object next_vehicle \<or> crash_building next_vehicle)
           \<and> sd' = sr\<lparr>vehicles := (vehicles sr)(vehicle_id \<mapsto> next_vehicle)\<rparr>)
   \<and> (reward_function self vehicle_id = Inr (reward, step_info, sr)
        \<and> vehicles self vehicle_id = Some vehicle
        \<and> relax_out_of_road_done (config self)
        \<and> object_to_agent self (name next_vehicle) = Some vehicle_id
        \<and> cost_function (sr\<lparr>vehicles := (vehicles sr)(vehicle_id \<mapsto> next_vehicle)\<rparr>)
             vehicle_id = Inr (c', cost_info', sc')
      \<longrightarrow> c' = (if 10 < \<bar>snd (local_coordinates (current_sdc_route self) (position vehicle))\<bar>
                     \<or> on_yellow_continuous_line next_vehicle \<or> crash_sidewalk next_vehicle
                  then out_of_road_cost (config self)
                  else if crash_vehicle next_vehicle then crash_vehicle_cost (config self)
                  else if crash_object next_vehicle then crash_object_cost (config self)
                  else 0)
           \<and> sc' = sr\<lparr>vehicles := (vehicles sr)(vehicle_id \<mapsto> next_vehicle)\<rparr>)"
proof (intro conjI impI)
  assume "done_function self vehicle_id = Inr (d, info, sd)"
  then show "sd = self" by (rule done_function_cases)
next
  assume "cost_function self vehicle_id = Inr (c, cost_info, sc)"
  then show "sc = self"
    by (auto simp: cost_function_def Let_def split: sum.splits)
next
  assume h: "reward_function self vehicle_id = Inr (reward, step_info, sr)
        \<and> vehicles self vehicle_id = Some vehicle"
  then obtain vehicle' current_lane ob where
    v: "vehicles self vehicle_id = Some vehicle'"
    and ob: "observations self vehicle_id = Some ob"
    and s: "sr = self\<lparr>observations := (observations self)
               (vehicle_id \<mapsto> ob\<lparr>lateral_dist :=
                  snd (local_coordinates (current_sdc_route self) (position vehicle'))\<rparr>)\<rparr>"
    by (blast elim: reward_function_cases)
  from v h have "vehicle' = vehicle" by simp
  with ob s show "\<exists>ob. observations self vehicle_id = Some ob
             \<and> sr = self\<lparr>observations := (observations self)
                      (vehicle_id \<mapsto> ob\<lparr>lateral_dist :=
                         snd (local_coordinates (current_sdc_route self) (position vehicle))\<rparr>)\<rparr>"
    by blast
next
  assume "reward_function self vehicle_id = Inr (reward, step_info, sr)
        \<and> vehicles self vehicle_id = Some vehicle
        \<and> relax_out_of_road_done (config self)
        \<and> object_to_agent self (name next_vehicle) = Some vehicle_id"
  then show "is_out_of_road (sr\<lparr>vehicles := (vehicles sr)(vehicle_id \<mapsto> next_vehicle)\<rparr>)
             next_vehicle
           = Inr (10 < \<bar>snd (local_coordinates (current_sdc_route self) (position vehicle))\<bar>
                  \<or> on_yellow_continuous_line next_vehicle \<or> crash_sidewalk next_vehicle)"
    by (blast intro: is_out_of_road_after_reward)
next
  let ?nxt = "sr\<lparr>vehicles := (vehicles sr)(vehicle_id \<mapsto> next_vehicle)\<rparr>"
  let ?stale = "10 < \<bar>snd (local_coordinates (current_sdc_route self) (position vehicle))\<bar>
                  \<or> on_yellow_continuous_line next_vehicle \<or> crash_sidewalk next_vehicle"
  assume h: "reward_function self vehicle_id = Inr (reward, step_info, sr)
        \<and> vehicles self vehicle_id = Some vehicle
        \<and> relax_out_of_road_done (config self)
        \<and> object_to_agent self (name next_vehicle) = Some vehicle_id
        \<and> done_function ?nxt vehicle_id = Inr (d', info', sd')"
  then have oor: "is_out_of_road ?nxt next_vehicle = Inr ?stale"
    by (blast intro: is_out_of_road_after_reward)
  from h have dn: "done_function ?nxt vehicle_id = Inr (d', info', sd')" by blast
  have nv: "vehicles ?nxt vehicle_id = Some next_vehicle" by simp
  from h have "config sr = config self" by (blast intro: reward_function_config)
  then have cfg: "config ?nxt = config self" by simp
  from dn nv obtain rc out where
    rc: "rc = vehicle_rc next_vehicle"
    and out: "is_out_of_road ?nxt next_vehicle = Inr out"
    and s: "sd' = ?nxt"
    and d: "d' = (0.95 < rc \<or> (out \<or> rc < - 0.1)
          \<or> (crash_vehicle next_vehicle \<and> crash_vehicle_done (config ?nxt))
          \<or> crash_object next_vehicle \<or> crash_building next_vehicle)"
    and info: "info' = flags_of (0.95 < rc) (out \<or> rc < - 0.1)
              (crash_vehicle next_vehicle \<and> crash_vehicle_done (config ?nxt))
              (crash_object next_vehicle) (crash_building next_vehicle)"
    by (rule done_function_for)
  from oor out have o: "out = ?stale" by simp
  show "info' ''out_of_road'' = Some (?stale \<or> vehicle_rc next_vehicle < - 0.1)"
    unfolding info flags_of_simps rc o ..
  show "d' = (0.95 < vehicle_rc next_vehicle
                   \<or> (?stale \<or> vehicle_rc next_vehicle < - 0.1)
                   \<or> (crash_vehicle next_vehicle \<and> crash_vehicle_done (config self))
                   \<or> crash_object next_vehicle \<or> crash_building next_vehicle)"
    unfolding d rc o cfg ..
  show "sd' = ?nxt" by (rule s)
next
  let ?nxt = "sr\<lparr>vehicles := (vehicles sr)(vehicle_id \<mapsto> next_vehicle)\<rparr>"
  let ?stale = "10 < \<bar>snd (local_coordinates (current_sdc_route self) (position vehicle))\<bar>
                  \<or> on_yellow_continuous_line next_vehicle \<or> crash_sidewalk next_vehicle"
  assume h: "reward_function self vehicle_id = Inr (reward, step_info, sr)
        \<and> vehicles self vehicle_id = Some vehicle
        \<and> relax_out_of_road_done (config self)
        \<and> object_to_agent self (name next_vehicle) = Some vehicle_id
        \<and> cost_function ?nxt vehicle_id = Inr (c', cost_info', sc')"
  then have oor: "is_out_of_road ?nxt next_vehicle = Inr ?stale"
    by (blast intro: is_out_of_road_after_reward)
  from h have ct: "cost_function ?nxt vehicle_id = Inr (c', cost_info', sc')" by blast
  have nv: "vehicles ?nxt vehicle_id = Some next_vehicle" by simp
  from h have "config sr = config self" by (blast intro: reward_function_config)
  then have cfg: "config ?nxt = config self" by simp
  show "c' = (if ?stale then out_of_road_cost (config self)
                  else if crash_vehicle next_vehicle then crash_vehicle_cost (config self)
                  else if crash_object next_vehicle then crash_object_cost (config self)
                  else 0)"
    using cost_function_for(1) [OF ct nv oor] unfolding cfg .
  show "sc' = ?nxt"
    using cost_function_for(3) [OF ct nv oor] .
qed

theorem lateral_dist_written_by_reward_only_witness:
  "reward_function (demo_env WAYMO_ENV_CONFIG (demo_vehicle (49, 0)) 12 [True] 1)
       ''default_agent''
     = Inr (49,
            \<lparr>step_reward = 49, track_length = 100, current_distance = 49,
             route_completion = 49 / 100, carsize = [2, 4],
             distance_error = Some (np_linalg_norm (49, 0)),
             distance_error_final = Some (np_linalg_norm (49, 0)),
             info_dynamics_mode = None\<rparr>,
            demo_env WAYMO_ENV_CONFIG (demo_vehicle (49, 0)) 0 [True] 1)
   \<and> done_function (demo_env WAYMO_ENV_CONFIG (demo_vehicle (50, 11)) 0 [True] 1) ''default_agent''
     = Inr (False, flags_of False False False False False,
            demo_env WAYMO_ENV_CONFIG (demo_vehicle (50, 11)) 0 [True] 1)
   \<and> cost_function (demo_env WAYMO_ENV_CONFIG (demo_vehicle (50, 11)) 0 [True] 1) ''default_agent''
     = Inr (0, [''cost'' \<mapsto> 0], demo_env WAYMO_ENV_CONFIG (demo_vehicle (50, 11)) 0 [True] 1)
   \<and> reward_function (demo_env WAYMO_ENV_CONFIG (demo_vehicle (50, 11)) 0 [True] 1)
       ''default_agent''
     = Inr (- 10,
            \<lparr>step_reward = 50, track_length = 100, current_distance = 50,
             route_completion = 50 / 100, carsize = [2, 4],
             distance_error = Some (np_linalg_norm (50, 11)),
             distance_error_final = Some (np_linalg_norm (50, 11)),
             info_dynamics_mode = None\<rparr>,
            demo_env WAYMO_ENV_CONFIG (demo_vehicle (50, 11)) 11 [True] 1)
   \<and> is_out_of_road (demo_env WAYMO_ENV_CONFIG (demo_vehicle (51, 0)) 11 [True] 1)
        (demo_vehicle (51, 0)) = Inr True
   \<and> done_function (demo_env WAYMO_ENV_CONFIG (demo_vehicle (51, 0)) 11 [True] 1) ''default_agent''
     = Inr (True, flags_of False True False False False,
            demo_env WAYMO_ENV_CONFIG (demo_vehicle (51, 0)) 11 [True] 1)
   \<and> cost_function (demo_env WAYMO_ENV_CONFIG (demo_vehicle (51, 0)) 11 [True] 1) ''default_agent''
     = Inr (1, [''cost'' \<mapsto> 1], demo_env WAYMO_ENV_CONFIG (demo_vehicle (51, 0)) 11 [True] 1)"
proof -
  let ?u = "demo_vehicle (49, 0)" and ?v = "demo_vehicle (50, 11)" and ?w = "demo_vehicle (51, 0)"
  let ?p = "demo_env WAYMO_ENV_CONFIG ?u 12 [True] 1"
  let ?p1 = "demo_env WAYMO_ENV_CONFIG ?u 0 [True] 1"
  let ?e = "demo_env WAYMO_ENV_CONFIG ?v 0 [True] 1"
  let ?e1 = "demo_env WAYMO_ENV_CONFIG ?v 11 [True] 1"
  let ?f = "demo_env WAYMO_ENV_CONFIG ?w 11 [True] 1"
  let ?none = "flags_of False False False False False"
  let ?out = "flags_of False True False False False"
  let ?sp = "\<lparr>step_reward = 49, track_length = 100, current_distance = 49,
             route_completion = 49 / 100, carsize = [2, 4],
             distance_error = Some (np_linalg_norm (49, 0)),
             distance_error_final = Some (np_linalg_norm (49, 0)),
             info_dynamics_mode = None\<rparr>"
  let ?si = "\<lparr>step_reward = 50, track_length = 100, current_distance = 50,
             route_completion = 50 / 100, carsize = [2, 4],
             distance_error = Some (np_linalg_norm (50, 11)),
             distance_error_final = Some (np_linalg_norm (50, 11)),
             info_dynamics_mode = None\<rparr>"
  have next_e: "?p1\<lparr>vehicles := (vehicles ?p1)(''default_agent'' \<mapsto> ?v)\<rparr> = ?e"
    by (simp add: demo_env_def)
  have next_f: "?e1\<lparr>vehicles := (vehicles ?e1)(''default_agent'' \<mapsto> ?w)\<rparr> = ?f"
    by (simp add: demo_env_def)
  have rp: "reward_function ?p ''default_agent'' = Inr (49, ?sp, ?p1)"
    by (simp add: reward_run_defs run_defs)
  have vp: "vehicles ?p ''default_agent'' = Some ?u"
    by (simp add: demo_env_def)
  have ap: "relax_out_of_road_done (config ?p)
           \<and> object_to_agent ?p (name ?v) = Some ''default_agent''"
    by (simp add: demo_defs)
  have lp: "snd (local_coordinates (current_sdc_route ?p) (position ?u)) = 0"
    by (simp add: demo_defs)
  have de: "done_function ?e ''default_agent'' = Inr (False, ?none, ?e)"
    by (simp add: run_defs flags_of_def fun_eq_iff)
  have ce: "cost_function ?e ''default_agent'' = Inr (0, [''cost'' \<mapsto> 0], ?e)"
    by (simp add: run_defs)
  have re: "reward_function ?e ''default_agent'' = Inr (- 10, ?si, ?e1)"
    by (simp add: reward_run_defs run_defs)
  have ve: "vehicles ?e ''default_agent'' = Some ?v"
    by (simp add: demo_env_def)
  have ae: "relax_out_of_road_done (config ?e)
           \<and> object_to_agent ?e (name ?w) = Some ''default_agent''"
    by (simp add: demo_defs)
  have le: "snd (local_coordinates (current_sdc_route ?e) (position ?v)) = 11"
    by (simp add: demo_defs)
  have df: "done_function ?f ''default_agent'' = Inr (True, ?out, ?f)"
    by (simp add: run_defs flags_of_def fun_eq_iff)
  have cf: "cost_function ?f ''default_agent'' = Inr (1, [''cost'' \<mapsto> 1], ?f)"
    by (simp add: run_defs)
  show ?thesis
    using lateral_dist_written_by_reward_only
            [where self = ?p and vehicle_id = "''default_agent''" and reward = 49
               and step_info = ?sp and sr = ?p1 and vehicle = ?u and next_vehicle = ?v
               and d' = False and info' = ?none and sd' = ?e
               and c' = 0 and cost_info' = "[''cost'' \<mapsto> 0]" and sc' = ?e
               and d = False and info = ?none and sd = ?e
               and c = 0 and cost_info = "[''cost'' \<mapsto> 0]" and sc = ?e]
      lateral_dist_written_by_reward_only
            [where self = ?e and vehicle_id = "''default_agent''" and reward = "- 10"
               and step_info = ?si and sr = ?e1 and vehicle = ?v and next_vehicle = ?w
               and d' = True and info' = ?out and sd' = ?f
               and c' = 1 and cost_info' = "[''cost'' \<mapsto> 1]" and sc' = ?f
               and d = False and info = ?none and sd = ?e
               and c = 0 and cost_info = "[''cost'' \<mapsto> 0]" and sc = ?e]
      rp vp ap lp de ce re ve ae le df cf
    unfolding next_e next_f
    by simp
qed

end
